theory Spec2Isabelle
  imports Main "HOL-Library.Word"
begin

section \<open>Kineto profiler bridge (torch/csrc/autograd/profiler\_kineto.cpp)\<close>

text \<open>
  A shallow embedding of the profiler bridge compiled under \<^verbatim>\<open>USE_KINETO\<close>, not
  \<^verbatim>\<open>C10_MOBILE\<close>.  Mutation is explicit state passing over a record of everything the
  file reads or writes on one thread; \<^verbatim>\<open>TORCH_CHECK\<close> and
  \<^verbatim>\<open>TORCH_INTERNAL_ASSERT\<close> failures are values of type \<open>error\<close>, returned together
  with the state at the moment of the throw.
\<close>

subsection \<open>Correlation ids\<close>

text \<open>
  \<^verbatim>\<open>static std::atomic<uint64_t> corr_id_ {1}; return corr_id_++;\<close>
  The counter is an unsigned 64-bit value: the post-increment returns the old value and
  stores the successor modulo \<open>2 ^ 64\<close>.
\<close>

type_synonym uint64_t = "64 word"

definition corr_id_init :: uint64_t where
  "corr_id_init = 1"

definition next_correlation_id :: "uint64_t \<Rightarrow> uint64_t \<times> uint64_t" where
  "next_correlation_id corr_id = (corr_id, corr_id + 1)"

text \<open>The value of the counter after \<open>n\<close> calls, and the id that call number \<open>n + 1\<close> returns.\<close>

fun corr_id_after :: "nat \<Rightarrow> uint64_t" where
  "corr_id_after 0 = corr_id_init"
| "corr_id_after (Suc n) = snd (next_correlation_id (corr_id_after n))"

definition returned_id :: "nat \<Rightarrow> uint64_t" where
  "returned_id n = fst (next_correlation_id (corr_id_after n))"

subsection \<open>Rendering of shapes\<close>

text \<open>
  \<^verbatim>\<open>oss << shapes[t_idx][s_idx]\<close> writes an \<^verbatim>\<open>int64_t\<close> in decimal, with a leading
  minus sign for a negative value.
\<close>

type_synonym int64_t = "64 word"

fun digits :: "nat \<Rightarrow> string" where
  "digits n = (if n < 10 then [''0123456789'' ! n]
               else digits (n div 10) @ [''0123456789'' ! (n mod 10)])"

definition show_int64 :: "int64_t \<Rightarrow> string" where
  "show_int64 v = (if sint v < 0 then CHR ''-'' # digits (nat (- sint v)) else digits (nat (sint v)))"

text \<open>
  The two loops of \<^verbatim>\<open>shapesToStr\<close>, each over an index that runs up to the size of the
  vector, with the text written so far as the accumulator.
\<close>

function dims_loop :: "int64_t list \<Rightarrow> nat \<Rightarrow> string \<Rightarrow> string" where
  "dims_loop shape s_idx oss =
     (if s_idx < length shape
      then dims_loop shape (s_idx + 1)
             ((if s_idx > 0 then oss @ '', '' else oss) @ show_int64 (shape ! s_idx))
      else oss)"
  by pat_completeness auto
termination
  by (relation "measure (\<lambda>(shape, s_idx, oss). length shape - s_idx)") auto

function shapes_loop :: "int64_t list list \<Rightarrow> nat \<Rightarrow> string \<Rightarrow> string" where
  "shapes_loop shapes t_idx oss =
     (if t_idx < length shapes
      then shapes_loop shapes (t_idx + 1)
             (dims_loop (shapes ! t_idx) 0 ((if t_idx > 0 then oss @ '', '' else oss) @ ''['') @ '']'')
      else oss)"
  by pat_completeness auto
termination
  by (relation "measure (\<lambda>(shapes, t_idx, oss). length shapes - t_idx)") auto

definition shapesToStr :: "int64_t list list \<Rightarrow> string" where
  "shapesToStr shapes = shapes_loop shapes 0 ''['' @ '']''"

text \<open>
  The rendering as the specification words it: a bracketed list of bracketed lists, the
  items of each separated by a comma and a space.
\<close>

fun sep_by :: "string \<Rightarrow> string list \<Rightarrow> string" where
  "sep_by s [] = []"
| "sep_by s [x] = x"
| "sep_by s (x # y # ys) = x @ s @ sep_by s (y # ys)"

definition bracketed :: "string list \<Rightarrow> string" where
  "bracketed items = ''['' @ sep_by '', '' items @ '']''"

definition shapes_rendering :: "int64_t list list \<Rightarrow> string" where
  "shapes_rendering shapes = bracketed (map (\<lambda>shape. bracketed (map show_int64 shape)) shapes)"


subsection \<open>Configuration, activity kinds and the instrumented operation\<close>

text \<open>
  The enumerations and plain structures come from headers of the profiler
  (\<^verbatim>\<open>profiler_legacy.h\<close>, \<^verbatim>\<open>profiler_kineto.h\<close>, \<^verbatim>\<open>record_function.h\<close>) and of
  libkineto; the members listed are the ones this file reads or writes.  \<open>ProfilerState\<close>
  is the mode of a configuration; the file only ever asks whether it is \<open>KINETO\<close>.
  A member whose name ends in an underscore in the source is written without it: those
  of \<^verbatim>\<open>KinetoEvent\<close> with the prefix \<open>e_\<close>, those of \<^verbatim>\<open>ProfilerResult\<close> with the
  prefix \<open>result_\<close>, \<^verbatim>\<open>kineto_events_\<close> as \<open>kineto_events\<close> and the counter
  \<^verbatim>\<open>corr_id_\<close> as \<open>corr_id_counter\<close>.
\<close>

datatype ProfilerState = Disabled | CPU | CUDA | NVTX | KINETO

record ProfilerConfig =
  state :: ProfilerState
  report_input_shapes :: bool
  with_stack :: bool

text \<open>
  The requested activity kinds (\<^verbatim>\<open>ActivityType::CUDA_RUNTIME\<close> is named only in a
  branch of \<^verbatim>\<open>prepareProfiler\<close> that is commented out) and the categories of libkineto.
\<close>

datatype ActivityType = ActivityType_CPU | ActivityType_CUDA_RUNTIME | ActivityType_CUDA

datatype KinetoActivityType =
  CPU_OP | GPU_MEMCPY | GPU_MEMSET | CONCURRENT_KERNEL | EXTERNAL_CORRELATION | CUDA_RUNTIME

datatype RecordScope = FUNCTION | BACKWARD_FUNCTION | TORCHSCRIPT_FUNCTION | USER_SCOPE

datatype DeviceType = DeviceType_CPU | DeviceType_CUDA

text \<open>
  Frames of a call stack before and after \<^verbatim>\<open>prepareCallstack\<close>; the file never looks
  inside either.
\<close>

type_synonym StackEntry = "string \<times> nat"
type_synonym FileLineFunc = "string \<times> nat \<times> string"

text \<open>
  What the callbacks read from \<^verbatim>\<open>at::RecordFunction\<close> and from the interpreter at the
  moment the operation is entered: \<open>input_sizes\<close> is the value of \<^verbatim>\<open>inputSizes(fn)\<close>,
  \<open>currentCallstack\<close> of \<^verbatim>\<open>jit::currentCallstack()\<close> and \<open>pythonCallstack\<close> of
  \<^verbatim>\<open>jit::tracer::pythonCallstack()\<close>.
\<close>

record RecordFunction =
  name :: string
  scope :: RecordScope
  seqNr :: int64_t
  forwardThreadId :: uint64_t
  input_sizes :: "int64_t list list"
  currentCallstack :: "StackEntry list"
  pythonCallstack :: "StackEntry list"

text \<open>
  The two helpers of the legacy profiler that turn a call stack into text.  Their
  bodies are not part of this file, so they are parameters of the entry callback.
\<close>

record Helpers =
  prepareCallstack :: "StackEntry list \<Rightarrow> FileLineFunc list"
  callstackStr :: "FileLineFunc list \<Rightarrow> string list"

text \<open>
  Timestamps (\<^verbatim>\<open>getTimeUs()\<close>) are only stored and copied by this file, never
  computed with, so they are plain integers here.
\<close>

type_synonym time_us = int

record KinetoObserverContext =
  startUs :: time_us
  correlationId :: uint64_t
  startThreadId :: uint64_t
  endThreadId :: uint64_t
  shapes :: "int64_t list list option"
  sequenceNr :: int64_t
  fwdThreadId :: uint64_t
  recFunScope :: RecordScope
  stack :: "string list option"

text \<open>\<^verbatim>\<open>std::make_unique<KinetoObserverContext>()\<close>: every member zero or absent.\<close>

definition new_KinetoObserverContext :: KinetoObserverContext where
  "new_KinetoObserverContext =
     \<lparr>startUs = 0, correlationId = 0, startThreadId = 0, endThreadId = 0, shapes = None,
      sequenceNr = 0, fwdThreadId = 0, recFunScope = FUNCTION, stack = None\<rparr>"

record ClientTraceActivity =
  startTime :: time_us
  endTime :: time_us
  opType :: string
  device :: int
  correlation :: uint64_t
  inputDims :: string
  threadId :: nat

definition new_ClientTraceActivity :: ClientTraceActivity where
  "new_ClientTraceActivity =
     \<lparr>startTime = 0, endTime = 0, opType = [], device = 0, correlation = 0, inputDims = [],
      threadId = 0\<rparr>"

record TraceSpan =
  span_startTime :: time_us
  span_endTime :: time_us
  span_name :: string

record CpuTraceBuffer =
  span :: TraceSpan
  gpuOpCount :: int
  ops :: "ClientTraceActivity list"

definition new_CpuTraceBuffer :: CpuTraceBuffer where
  "new_CpuTraceBuffer =
     \<lparr>span = \<lparr>span_startTime = 0, span_endTime = 0, span_name = []\<rparr>, gpuOpCount = 0, ops = []\<rparr>"

record KinetoEvent =
  e_name :: string
  e_device_index :: int
  e_start_us :: time_us
  e_duration_us :: int
  e_correlation_id :: uint64_t
  e_start_thread_id :: uint64_t
  e_end_thread_id :: uint64_t
  e_sequence_nr :: int64_t
  e_fwd_thread_id :: uint64_t
  e_scope :: RecordScope
  e_device_type :: DeviceType
  e_shapes :: "int64_t list list option"
  e_stack :: "string list option"

definition new_KinetoEvent :: KinetoEvent where
  "new_KinetoEvent =
     \<lparr>e_name = [], e_device_index = 0, e_start_us = 0, e_duration_us = 0, e_correlation_id = 0,
      e_start_thread_id = 0, e_end_thread_id = 0, e_sequence_nr = 0, e_fwd_thread_id = 0,
      e_scope = FUNCTION, e_device_type = DeviceType_CPU, e_shapes = None, e_stack = None\<rparr>"

text \<open>
  \<^verbatim>\<open>KinetoEvent::activity\<close> copies what the accessors of the activity return: its
  name (the operation type), device, start, duration (end minus start) and correlation id.
\<close>

definition activity :: "ClientTraceActivity \<Rightarrow> KinetoEvent \<Rightarrow> KinetoEvent" where
  "activity op ev =
     ev\<lparr>e_name := opType op, e_device_index := device op, e_start_us := startTime op,
        e_duration_us := endTime op - startTime op, e_correlation_id := correlation op\<rparr>"


subsection \<open>The session state, the backend and the thread\<close>

text \<open>
  \<^verbatim>\<open>struct KinetoThreadLocalState : public ProfilerThreadLocalState\<close>.  The base
  class carries the members this file uses through it (the configuration, the callback
  handle and the legacy events written by \<^verbatim>\<open>mark\<close>); the derived class adds its own
  two members.  \<open>cpu_trace\<close> is a \<^verbatim>\<open>unique_ptr\<close>: absent until
  \<^verbatim>\<open>enableProfiler\<close> allocates it and again after \<^verbatim>\<open>disableProfiler\<close> moves it out.
\<close>

type_synonym LegacyEvent = string
type_synonym CallbackHandle = nat
type_synonym ActivityTrace = nat

record ProfilerThreadLocalState =
  config :: ProfilerConfig
  handle :: "CallbackHandle option"
  legacy_events :: "LegacyEvent list"

record KinetoThreadLocalState = ProfilerThreadLocalState +
  kineto_events :: "KinetoEvent list"
  cpu_trace :: "CpuTraceBuffer option"

text \<open>
  An object registered under \<^verbatim>\<open>PROFILER_STATE\<close> is held through a pointer to its
  base class.  Its dynamic type is either \<^verbatim>\<open>KinetoThreadLocalState\<close> or not (the
  state of the legacy profiler is a plain \<^verbatim>\<open>ProfilerThreadLocalState\<close>);
  \<^verbatim>\<open>dynamic_cast<KinetoThreadLocalState*>\<close> yields the object in the first case and
  a null pointer in the second.  The members of the base class can be read whatever the
  dynamic type is.
\<close>

datatype DebugInfo =
    Kineto_object KinetoThreadLocalState
  | Base_object ProfilerThreadLocalState

definition dynamic_cast_Kineto :: "DebugInfo \<Rightarrow> KinetoThreadLocalState option" where
  "dynamic_cast_Kineto obj =
     (case obj of Kineto_object st \<Rightarrow> Some st | Base_object b \<Rightarrow> None)"

definition object_config :: "DebugInfo \<Rightarrow> ProfilerConfig" where
  "object_config obj = (case obj of Kineto_object st \<Rightarrow> config st | Base_object b \<Rightarrow> config b)"

definition object_handle :: "DebugInfo \<Rightarrow> CallbackHandle option" where
  "object_handle obj = (case obj of Kineto_object st \<Rightarrow> handle st | Base_object b \<Rightarrow> handle b)"

definition new_KinetoThreadLocalState :: "ProfilerConfig \<Rightarrow> KinetoThreadLocalState" where
  "new_KinetoThreadLocalState cfg =
     \<lparr>config = cfg, handle = None, legacy_events = [], kineto_events = [], cpu_trace = None\<rparr>"

record ProfilerResult =
  result_events :: "KinetoEvent list list"
  result_legacy_events :: "LegacyEvent list list"
  result_trace :: ActivityTrace

text \<open>
  The state of \<^verbatim>\<open>libkineto::api()\<close> as far as this file drives it.
  \<open>stop_trace_result\<close> is what the backend hands back from \<^verbatim>\<open>stopTrace()\<close>, absent
  for a null pointer; it is the backend's choice and a parameter here.
\<close>

record LibKineto =
  profiler_initialized :: bool
  prepared_activities :: "KinetoActivityType set option"
  trace_active :: bool
  correlation_ids :: "uint64_t list"
  cpu_traces :: "CpuTraceBuffer list"
  stop_trace_result :: "ActivityTrace option"

text \<open>
  Everything the file touches on one thread: the process-wide counter, the
  \<^verbatim>\<open>PROFILER_STATE\<close> entries of the thread-local debug-info stack (top first), the
  thread-local callback registry with the
  \<^verbatim>\<open>needsInputs\<close> flag of each entry, the operations that have been entered and not
  yet left together with the context their entry callback returned, the backend, and
  the clock as the sequence of its readings with the number of readings taken so far.
\<close>

record World =
  corr_id_counter :: uint64_t
  debug_info :: "DebugInfo list"
  tls_callbacks :: "(CallbackHandle \<times> bool) list"
  next_handle :: CallbackHandle
  inflight :: "(RecordFunction \<times> KinetoObserverContext option) list"
  kineto :: LibKineto
  clock :: "nat \<Rightarrow> time_us"
  ticks :: nat
  currentThreadId :: uint64_t
  pthread_self :: nat

datatype error =
    Supported_only_in_Kineto_profiler
  | Check_failed_state_KINETO
  | No_activities_specified
  | Profiler_already_enabled
  | Expected_profiler_state_set
  | Cannot_disable_when_not_running
  | Check_failed_trace
  | Null_cpu_trace
  | Not_a_KinetoThreadLocalState

definition getTimeUs :: "World \<Rightarrow> time_us \<times> World" where
  "getTimeUs w = (clock w (ticks w), w\<lparr>ticks := ticks w + 1\<rparr>)"

subsubsection \<open>The thread-local debug-info stack\<close>

text \<open>
  Modelled from the spec: \<^verbatim>\<open>c10::ThreadLocalDebugInfo\<close> (\<^verbatim>\<open>get\<close>, \<^verbatim>\<open>_push\<close>,
  \<^verbatim>\<open>_pop\<close>), a thread-local registry with stack discipline; popping yields nothing
  when no entry is present.
\<close>

definition ThreadLocalDebugInfo_get :: "World \<Rightarrow> DebugInfo option" where
  "ThreadLocalDebugInfo_get w = (case debug_info w of [] \<Rightarrow> None | obj # rest \<Rightarrow> Some obj)"

definition ThreadLocalDebugInfo_push :: "DebugInfo \<Rightarrow> World \<Rightarrow> World" where
  "ThreadLocalDebugInfo_push obj w = w\<lparr>debug_info := obj # debug_info w\<rparr>"

definition ThreadLocalDebugInfo_pop :: "World \<Rightarrow> DebugInfo option \<times> World" where
  "ThreadLocalDebugInfo_pop w =
     (case debug_info w of [] \<Rightarrow> (None, w) | obj # rest \<Rightarrow> (Some obj, w\<lparr>debug_info := rest\<rparr>))"

text \<open>
  \<^verbatim>\<open>getProfilerTLSState\<close>: the entry found on the stack, down-cast with
  \<^verbatim>\<open>dynamic_cast\<close>: null when the stack has no entry and also when the entry is
  not a \<^verbatim>\<open>KinetoThreadLocalState\<close>.
\<close>

definition getProfilerTLSState :: "World \<Rightarrow> KinetoThreadLocalState option" where
  "getProfilerTLSState w =
     (case ThreadLocalDebugInfo_get w of None \<Rightarrow> None | Some obj \<Rightarrow> dynamic_cast_Kineto obj)"

text \<open>
  A write through a \<^verbatim>\<open>state_ptr\<close> that \<^verbatim>\<open>getProfilerTLSState\<close> returned: it
  points at the top entry, which is a \<^verbatim>\<open>KinetoThreadLocalState\<close>.
\<close>

definition update_state :: "(KinetoThreadLocalState \<Rightarrow> KinetoThreadLocalState) \<Rightarrow> World \<Rightarrow> World" where
  "update_state f w =
     (case debug_info w of
        [] \<Rightarrow> w
      | Kineto_object st # rest \<Rightarrow> w\<lparr>debug_info := Kineto_object (f st) # rest\<rparr>
      | Base_object b # rest \<Rightarrow> w)"

subsubsection \<open>The callback registry and the legacy members\<close>

text \<open>
  Modelled from the spec: the call-observation mechanism (\<^verbatim>\<open>at::addThreadLocalCallback\<close>,
  \<^verbatim>\<open>at::removeCallback\<close>): registering returns a fresh handle, removing takes the
  entry with that handle out.
\<close>

definition addThreadLocalCallback :: "bool \<Rightarrow> World \<Rightarrow> CallbackHandle \<times> World" where
  "addThreadLocalCallback needsInputs w =
     (next_handle w,
      w\<lparr>tls_callbacks := tls_callbacks w @ [(next_handle w, needsInputs)],
        next_handle := next_handle w + 1\<rparr>)"

definition removeCallback :: "CallbackHandle \<Rightarrow> World \<Rightarrow> World" where
  "removeCallback h w = w\<lparr>tls_callbacks := filter (\<lambda>cb. fst cb \<noteq> h) (tls_callbacks w)\<rparr>"

text \<open>
  Modelled from the spec: \<^verbatim>\<open>ProfilerThreadLocalState::mark\<close> and
  \<^verbatim>\<open>ProfilerThreadLocalState::consolidate\<close> of the legacy profiler: a mark is a
  synthetic legacy event with the given name, and consolidation hands the legacy events
  of the session back.
\<close>

definition mark ::
  "string \<Rightarrow> 'a ProfilerThreadLocalState_scheme \<Rightarrow> 'a ProfilerThreadLocalState_scheme" where
  "mark nm st = st\<lparr>legacy_events := legacy_events st @ [nm]\<rparr>"

definition consolidate :: "'a ProfilerThreadLocalState_scheme \<Rightarrow> LegacyEvent list list" where
  "consolidate st = [legacy_events st]"

subsubsection \<open>The backend\<close>

text \<open>
  Modelled from the spec: the external trace backend (\<^verbatim>\<open>libkineto::api()\<close>):
  \<^verbatim>\<open>initProfilerIfRegistered\<close>, \<^verbatim>\<open>prepareTrace\<close>, \<^verbatim>\<open>traceActive\<close>,
  \<^verbatim>\<open>startTrace\<close>, \<^verbatim>\<open>stopTrace\<close>, \<^verbatim>\<open>transferCpuTrace\<close>,
  \<^verbatim>\<open>pushCorrelationId\<close> and \<^verbatim>\<open>popCorrelationId\<close>.
\<close>

definition initProfilerIfRegistered :: "LibKineto \<Rightarrow> LibKineto" where
  "initProfilerIfRegistered k = k\<lparr>profiler_initialized := True\<rparr>"

definition prepareTrace :: "KinetoActivityType set \<Rightarrow> LibKineto \<Rightarrow> LibKineto" where
  "prepareTrace k_activities k = k\<lparr>prepared_activities := Some k_activities\<rparr>"

definition traceActive :: "LibKineto \<Rightarrow> bool" where
  "traceActive k = trace_active k"

definition startTrace :: "LibKineto \<Rightarrow> LibKineto" where
  "startTrace k = k\<lparr>trace_active := True\<rparr>"

definition stopTrace :: "LibKineto \<Rightarrow> ActivityTrace option \<times> LibKineto" where
  "stopTrace k = (stop_trace_result k, k\<lparr>trace_active := False\<rparr>)"

definition transferCpuTrace :: "CpuTraceBuffer \<Rightarrow> LibKineto \<Rightarrow> LibKineto" where
  "transferCpuTrace buf k = k\<lparr>cpu_traces := cpu_traces k @ [buf]\<rparr>"

definition pushCorrelationId :: "uint64_t \<Rightarrow> LibKineto \<Rightarrow> LibKineto" where
  "pushCorrelationId i k = k\<lparr>correlation_ids := i # correlation_ids k\<rparr>"

definition popCorrelationId :: "LibKineto \<Rightarrow> LibKineto" where
  "popCorrelationId k = k\<lparr>correlation_ids := tl (correlation_ids k)\<rparr>"


subsection \<open>Recording an activity\<close>

text \<open>
  The block of \<^verbatim>\<open>reportClientActivity\<close> under \<^verbatim>\<open>state_mutex_\<close>: one event is
  appended to \<open>kineto_events\<close>, filled from the activity and the context, and then the
  activity is appended to \<open>cpu_trace->ops\<close>.  A null \<open>cpu_trace\<close> cannot be
  dereferenced: that is the error \<open>Null_cpu_trace\<close>, raised after the event was appended.
\<close>

definition locked_block ::
  "ClientTraceActivity \<Rightarrow> KinetoObserverContext \<Rightarrow> KinetoThreadLocalState
     \<Rightarrow> (error + unit) \<times> KinetoThreadLocalState" where
  "locked_block op ctx st =
     (let ev0 = (activity op new_KinetoEvent)
                  \<lparr>e_start_thread_id := startThreadId ctx, e_end_thread_id := endThreadId ctx,
                   e_sequence_nr := sequenceNr ctx, e_fwd_thread_id := fwdThreadId ctx,
                   e_scope := recFunScope ctx, e_device_type := DeviceType_CPU\<rparr>;
          ev1 = (case shapes ctx of
                   None \<Rightarrow> ev0
                 | Some s \<Rightarrow> if s \<noteq> [] then ev0\<lparr>e_shapes := Some s\<rparr> else ev0);
          ev2 = (case stack ctx of
                   None \<Rightarrow> ev1
                 | Some cs \<Rightarrow> if cs \<noteq> [] then ev1\<lparr>e_stack := Some cs\<rparr> else ev1);
          st1 = st\<lparr>kineto_events := kineto_events st @ [ev2]\<rparr>
      in case cpu_trace st1 of
           None \<Rightarrow> (Inl Null_cpu_trace, st1)
         | Some buf \<Rightarrow> (Inr (), st1\<lparr>cpu_trace := Some (buf\<lparr>ops := ops buf @ [op]\<rparr>)\<rparr>))"

text \<open>
  \<^verbatim>\<open>KinetoThreadLocalState::reportClientActivity\<close>, called on the top entry of the
  debug-info stack.  The context is always a \<^verbatim>\<open>KinetoObserverContext\<close>, so the cast
  and its check succeed.
\<close>

definition reportClientActivity ::
  "RecordFunction \<Rightarrow> KinetoObserverContext \<Rightarrow> World \<Rightarrow> (error + unit) \<times> World" where
  "reportClientActivity fn ctx w =
     (let (now, w1) = getTimeUs w;
          op = new_ClientTraceActivity
                 \<lparr>startTime := startUs ctx, endTime := now, opType := name fn, device := 0,
                  correlation := correlationId ctx,
                  inputDims := (case shapes ctx of
                                  None \<Rightarrow> []
                                | Some s \<Rightarrow> if s \<noteq> [] then shapesToStr s else []),
                  threadId := pthread_self w1\<rparr>
      in case getProfilerTLSState w1 of
           None \<Rightarrow> (Inr (), w1)
         | Some st \<Rightarrow>
             (let (r, st') = locked_block op ctx st
              in (r, update_state (\<lambda>_. st') w1)))"

text \<open>\<^verbatim>\<open>events()\<close> and \<^verbatim>\<open>addTraceEvents\<close>, both marked \<^verbatim>\<open>// tbd\<close> in the source.\<close>

definition addTraceEvents :: "ActivityTrace \<Rightarrow> KinetoThreadLocalState \<Rightarrow> KinetoThreadLocalState" where
  "addTraceEvents trace st = st"

definition events :: "KinetoThreadLocalState \<Rightarrow> KinetoEvent list list" where
  "events st = []"

subsection \<open>The two callbacks\<close>

text \<open>The first lambda of \<^verbatim>\<open>pushProfilingCallbacks\<close>, run when an operation is entered.\<close>

definition on_entry :: "Helpers \<Rightarrow> RecordFunction \<Rightarrow> World \<Rightarrow> KinetoObserverContext \<times> World" where
  "on_entry h fn w =
     (case getProfilerTLSState w of
        None \<Rightarrow> (new_KinetoObserverContext, w)
      | Some state_ptr \<Rightarrow>
          if state (config state_ptr) \<noteq> KINETO then (new_KinetoObserverContext, w)
          else
            (let (corr_id, c) = next_correlation_id (corr_id_counter w);
                 w1 = w\<lparr>corr_id_counter := c, kineto := pushCorrelationId corr_id (kineto w)\<rparr>;
                 (now, w2) = getTimeUs w1;
                 ctx1 = new_KinetoObserverContext
                          \<lparr>startUs := now, correlationId := corr_id,
                           startThreadId := currentThreadId w2\<rparr>;
                 ctx2 = (if report_input_shapes (config state_ptr)
                         then ctx1\<lparr>shapes := Some (input_sizes fn)\<rparr> else ctx1);
                 ctx3 = ctx2\<lparr>sequenceNr := seqNr fn, fwdThreadId := forwardThreadId fn,
                             recFunScope := scope fn\<rparr>;
                 ctx4 = (if with_stack (config state_ptr) \<and> scope fn \<noteq> BACKWARD_FUNCTION
                         then (let cs = prepareCallstack h (currentCallstack fn);
                                   cs' = (if cs = [] then prepareCallstack h (pythonCallstack fn)
                                          else cs)
                               in ctx3\<lparr>stack := Some (callstackStr h cs')\<rparr>)
                         else ctx3)
             in (ctx4, w2)))"

text \<open>The second lambda, run when the operation is left, with the context of its entry.\<close>

definition on_exit ::
  "RecordFunction \<Rightarrow> KinetoObserverContext \<Rightarrow> World \<Rightarrow> (error + unit) \<times> World" where
  "on_exit fn ctx_ptr w =
     (case getProfilerTLSState w of
        None \<Rightarrow> (Inr (), w)
      | Some state_ptr \<Rightarrow>
          if state (config state_ptr) \<noteq> KINETO then (Inr (), w)
          else
            (let kineto_ctx = ctx_ptr\<lparr>endThreadId := currentThreadId w\<rparr>;
                 (r, w1) = reportClientActivity fn kineto_ctx w
             in case r of
                  Inl e \<Rightarrow> (Inl e, w1)
                | Inr u \<Rightarrow> (Inr (), w1\<lparr>kineto := popCorrelationId (kineto w1)\<rparr>)))"

definition pushProfilingCallbacks :: "World \<Rightarrow> (error + unit) \<times> World" where
  "pushProfilingCallbacks w =
     (case getProfilerTLSState w of
        None \<Rightarrow> (Inl Expected_profiler_state_set, w)
      | Some state_ptr \<Rightarrow>
          (let (h, w1) = addThreadLocalCallback (report_input_shapes (config state_ptr)) w
           in (Inr (), update_state (\<lambda>st. st\<lparr>handle := Some h\<rparr>) w1)))"

subsection \<open>Prepare, enable, disable\<close>

definition k_activities :: "ActivityType set \<Rightarrow> KinetoActivityType set" where
  "k_activities activities =
     (let k0 = {};
          k1 = (if ActivityType_CPU \<in> activities
                then insert CUDA_RUNTIME (insert EXTERNAL_CORRELATION k0) else k0);
          k2 = (if ActivityType_CUDA \<in> activities
                then insert CUDA_RUNTIME (insert CONCURRENT_KERNEL
                       (insert GPU_MEMSET (insert GPU_MEMCPY k1)))
                else k1)
      in k2)"

definition prepareProfiler ::
  "ProfilerConfig \<Rightarrow> ActivityType set \<Rightarrow> World \<Rightarrow> (error + unit) \<times> World" where
  "prepareProfiler cfg activities w =
     (if state cfg \<noteq> KINETO then (Inl Supported_only_in_Kineto_profiler, w)
      else (Inr (),
            w\<lparr>kineto := prepareTrace (k_activities activities)
                           (initProfilerIfRegistered (kineto w))\<rparr>))"

definition enableProfiler ::
  "ProfilerConfig \<Rightarrow> ActivityType set \<Rightarrow> World \<Rightarrow> (error + unit) \<times> World" where
  "enableProfiler cfg activities w =
     (if state cfg \<noteq> KINETO then (Inl Check_failed_state_KINETO, w)
      else if activities = {} then (Inl No_activities_specified, w)
      else case getProfilerTLSState w of
             Some state_ptr \<Rightarrow> (Inl Profiler_already_enabled, w)
           | None \<Rightarrow>
               (let w1 = ThreadLocalDebugInfo_push
                           (Kineto_object (new_KinetoThreadLocalState cfg)) w;
                    (now, w2) = getTimeUs w1;
                    w3 = update_state
                           (\<lambda>st. st\<lparr>cpu_trace :=
                                      Some (new_CpuTraceBuffer
                                              \<lparr>span := \<lparr>span_startTime = now, span_endTime = 0,
                                                        span_name = ''PyTorch Profiler''\<rparr>,
                                               gpuOpCount := - 1\<rparr>)\<rparr>) w2;
                    (r, w4) = (if ActivityType_CPU \<in> activities then pushProfilingCallbacks w3
                               else (Inr (), w3))
                in case r of
                     Inl e \<Rightarrow> (Inl e, w4)
                   | Inr u \<Rightarrow>
                       (let w5 = (if \<not> traceActive (kineto w4)
                                  then w4\<lparr>kineto := startTrace (kineto w4)\<rparr> else w4)
                        in (Inr (), update_state (mark ''__start_profile'') w5))))"

text \<open>
  \<^verbatim>\<open>disableProfiler\<close> down-casts the popped object with \<^verbatim>\<open>static_cast\<close>, which
  does not look at the dynamic type.  The check of the mode, the callback handle and
  \<^verbatim>\<open>mark\<close> are members of the base class and work on any object.  For an object that
  is not a \<^verbatim>\<open>KinetoThreadLocalState\<close> the first use of \<open>cpu_trace\<close> is undefined
  behaviour in the source; the model stops there with the error
  \<open>Not_a_KinetoThreadLocalState\<close>.
\<close>

definition disableProfiler :: "World \<Rightarrow> (error + ProfilerResult) \<times> World" where
  "disableProfiler w =
     (case ThreadLocalDebugInfo_pop w of
        (None, w1) \<Rightarrow> (Inl Cannot_disable_when_not_running, w1)
      | (Some obj, w1) \<Rightarrow>
          if state (object_config obj) \<noteq> KINETO then (Inl Cannot_disable_when_not_running, w1)
          else
            (let w2 = (case object_handle obj of
                         None \<Rightarrow> w1
                       | Some h \<Rightarrow> removeCallback h w1);
                 (now, w3) = getTimeUs w2
             in case obj of
                  Base_object b \<Rightarrow> (Inl Not_a_KinetoThreadLocalState, w3)
                | Kineto_object state_ptr \<Rightarrow>
                    (let st1 = mark ''__stop_profile'' state_ptr
                     in case cpu_trace st1 of
                          None \<Rightarrow> (Inl Null_cpu_trace, w3)
                        | Some buf \<Rightarrow>
                            (let buf' = buf\<lparr>span := (span buf)\<lparr>span_endTime := now\<rparr>\<rparr>;
                                 st2 = st1\<lparr>cpu_trace := None\<rparr>;
                                 w4 = w3\<lparr>kineto := transferCpuTrace buf' (kineto w3)\<rparr>;
                                 (trace, k) = stopTrace (kineto w4);
                                 w5 = w4\<lparr>kineto := k\<rparr>
                             in case trace of
                                  None \<Rightarrow> (Inl Check_failed_trace, w5)
                                | Some tr \<Rightarrow>
                                    (let st3 = addTraceEvents tr st2
                                     in (Inr \<lparr>result_events = events st3,
                                              result_legacy_events = consolidate st3,
                                              result_trace = tr\<rparr>, w5))))))"

subsection \<open>Runs of one thread\<close>

text \<open>
  Modelled from the spec: the call-observation mechanism around an instrumented
  operation.  When a callback pair is registered on the thread at the moment the
  operation is entered, the entry callback runs and its context is kept for the
  matching exit; the exit callback then runs when the operation is left.  Operations
  nest, so the contexts form a stack.
\<close>

definition op_begin :: "Helpers \<Rightarrow> RecordFunction \<Rightarrow> World \<Rightarrow> World" where
  "op_begin h fn w =
     (if tls_callbacks w = [] then w\<lparr>inflight := (fn, None) # inflight w\<rparr>
      else (let (ctx, w1) = on_entry h fn w
            in w1\<lparr>inflight := (fn, Some ctx) # inflight w1\<rparr>))"

definition op_end :: "World \<Rightarrow> World" where
  "op_end w =
     (case inflight w of
        [] \<Rightarrow> w
      | (fn, None) # rest \<Rightarrow> w\<lparr>inflight := rest\<rparr>
      | (fn, Some ctx) # rest \<Rightarrow> snd (on_exit fn ctx (w\<lparr>inflight := rest\<rparr>)))"

text \<open>
  What a thread can do, in any order.  A call of the public surface that fails leaves
  the state as it was at the throw, and the thread goes on from there.
\<close>

datatype action =
    Prepare ProfilerConfig "ActivityType set"
  | Enable ProfilerConfig "ActivityType set"
  | Disable
  | OpBegin RecordFunction
  | OpEnd

fun step :: "Helpers \<Rightarrow> World \<Rightarrow> action \<Rightarrow> World" where
  "step h w (Prepare cfg activities) = snd (prepareProfiler cfg activities w)"
| "step h w (Enable cfg activities) = snd (enableProfiler cfg activities w)"
| "step h w Disable = snd (disableProfiler w)"
| "step h w (OpBegin fn) = op_begin h fn w"
| "step h w OpEnd = op_end w"

definition run :: "Helpers \<Rightarrow> action list \<Rightarrow> World \<Rightarrow> World" where
  "run h acts w = foldl (step h) w acts"

text \<open>
  A thread at process start: the counter at its initial value, no profiler state, no
  callback, no operation entered; the clock, the thread's identities and the backend are
  whatever the environment provides.
\<close>

definition initial_world :: "(nat \<Rightarrow> time_us) \<Rightarrow> uint64_t \<Rightarrow> nat \<Rightarrow> LibKineto \<Rightarrow> World" where
  "initial_world clk tid ptid k =
     \<lparr>corr_id_counter = corr_id_init, debug_info = [], tls_callbacks = [], next_handle = 1,
      inflight = [], kineto = k, clock = clk, ticks = 0, currentThreadId = tid,
      pthread_self = ptid\<rparr>"

definition idle_backend :: "ActivityTrace option \<Rightarrow> LibKineto" where
  "idle_backend tr =
     \<lparr>profiler_initialized = False, prepared_activities = None, trace_active = False,
      correlation_ids = [], cpu_traces = [], stop_trace_result = tr\<rparr>"


subsection \<open>Notions used in the statements\<close>

text \<open>Whether a callback that looks the state up now finds a session in Kineto mode.\<close>

definition observes_session :: "World \<Rightarrow> bool" where
  "observes_session w =
     (case getProfilerTLSState w of None \<Rightarrow> False | Some st \<Rightarrow> state (config st) = KINETO)"

text \<open>
  The number of operations of a run whose entry callback ran and found such a session,
  and the number of events a result carries.
\<close>

fun observed_entries :: "Helpers \<Rightarrow> World \<Rightarrow> action list \<Rightarrow> nat" where
  "observed_entries h w [] = 0"
| "observed_entries h w (OpBegin fn # acts) =
     (if tls_callbacks w \<noteq> [] \<and> observes_session w then 1 else 0)
       + observed_entries h (step h w (OpBegin fn)) acts"
| "observed_entries h w (a # acts) = observed_entries h (step h w a) acts"

definition event_count :: "ProfilerResult \<Rightarrow> nat" where
  "event_count r = length (concat (result_events r))"

text \<open>
  An entry of the slot that is a \<^verbatim>\<open>KinetoThreadLocalState\<close> with the property \<open>P\<close>.
\<close>

definition kineto_session :: "(KinetoThreadLocalState \<Rightarrow> bool) \<Rightarrow> DebugInfo \<Rightarrow> bool" where
  "kineto_session P obj = (case obj of Kineto_object st \<Rightarrow> P st | Base_object b \<Rightarrow> False)"

text \<open>A session whose event buffer is as long as the list of operations of its CPU trace.\<close>

definition session_balanced :: "KinetoThreadLocalState \<Rightarrow> bool" where
  "session_balanced st =
     (case cpu_trace st of
        None \<Rightarrow> False
      | Some buf \<Rightarrow> length (kineto_events st) = length (ops buf))"

text \<open>Timestamps in order, for an activity, an event and the span of a trace buffer.\<close>

definition monotonic :: "(nat \<Rightarrow> time_us) \<Rightarrow> bool" where
  "monotonic clk = (\<forall>i j. i \<le> j \<longrightarrow> clk i \<le> clk j)"

definition activity_ordered :: "ClientTraceActivity \<Rightarrow> bool" where
  "activity_ordered op = (startTime op \<le> endTime op)"

definition span_ordered :: "CpuTraceBuffer \<Rightarrow> bool" where
  "span_ordered buf = (span_startTime (span buf) \<le> span_endTime (span buf))"

definition session_ordered :: "KinetoThreadLocalState \<Rightarrow> bool" where
  "session_ordered st =
     (list_all (\<lambda>ev. 0 \<le> e_duration_us ev) (kineto_events st) \<and>
      (case cpu_trace st of None \<Rightarrow> True | Some buf \<Rightarrow> list_all activity_ordered (ops buf)))"

definition transferred_ordered :: "CpuTraceBuffer \<Rightarrow> bool" where
  "transferred_ordered buf = (span_ordered buf \<and> list_all activity_ordered (ops buf))"

text \<open>
  One session extends another when its event buffer and the operations of its CPU trace
  begin with those of the other: nothing was removed.
\<close>

definition extends :: "KinetoThreadLocalState \<Rightarrow> KinetoThreadLocalState \<Rightarrow> bool" where
  "extends st st' =
     (take (length (kineto_events st)) (kineto_events st') = kineto_events st \<and>
      (case cpu_trace st of
         None \<Rightarrow> True
       | Some buf \<Rightarrow>
           (case cpu_trace st' of
              None \<Rightarrow> False
            | Some buf' \<Rightarrow> take (length (ops buf)) (ops buf') = ops buf)))"

subsection \<open>Invariants of a thread\<close>

text \<open>
  The slot holds at most one entry; an entry on the slot is a
  \<^verbatim>\<open>KinetoThreadLocalState\<close> in Kineto mode that has its CPU trace allocated and is
  balanced; and the callbacks registered on the thread are exactly the one whose handle
  the session holds.
\<close>

definition registered_handles :: "KinetoThreadLocalState \<Rightarrow> CallbackHandle list" where
  "registered_handles st = (case handle st of None \<Rightarrow> [] | Some h \<Rightarrow> [h])"

definition slot_inv :: "World \<Rightarrow> bool" where
  "slot_inv w =
     (case debug_info w of
        [] \<Rightarrow> tls_callbacks w = []
      | obj # rest \<Rightarrow>
          rest = [] \<and>
          kineto_session
            (\<lambda>st. state (config st) = KINETO \<and> session_balanced st \<and>
                  map fst (tls_callbacks w) = registered_handles st) obj)"

text \<open>
  No stored timestamp is ahead of the next reading \<open>t\<close> of the clock: the start of the
  span of a session, and the start time in the context of an operation that was entered.
\<close>

definition session_timed :: "time_us \<Rightarrow> KinetoThreadLocalState \<Rightarrow> bool" where
  "session_timed t st =
     (session_ordered st \<and>
      (case cpu_trace st of None \<Rightarrow> True | Some buf \<Rightarrow> span_startTime (span buf) \<le> t))"

definition context_timed ::
  "time_us \<Rightarrow> RecordFunction \<times> KinetoObserverContext option \<Rightarrow> bool" where
  "context_timed t p = (case snd p of None \<Rightarrow> True | Some ctx \<Rightarrow> startUs ctx \<le> t)"

definition time_inv :: "World \<Rightarrow> bool" where
  "time_inv w =
     (monotonic (clock w) \<and>
      list_all (kineto_session (session_timed (clock w (ticks w)))) (debug_info w) \<and>
      list_all (context_timed (clock w (ticks w))) (inflight w) \<and>
      list_all transferred_ordered (cpu_traces (kineto w)))"

subsection \<open>Concrete inputs\<close>

definition kineto_config :: ProfilerConfig where
  "kineto_config = \<lparr>state = KINETO, report_input_shapes = True, with_stack = True\<rparr>"

definition legacy_config :: ProfilerConfig where
  "legacy_config = \<lparr>state = CPU, report_input_shapes = False, with_stack = False\<rparr>"

definition matmul :: RecordFunction where
  "matmul =
     \<lparr>name = ''matmul'', scope = FUNCTION, seqNr = 0, forwardThreadId = 0,
      input_sizes = [[2, 3], [3, 4]], currentCallstack = [],
      pythonCallstack = [(''forward'', 7)]\<rparr>"

definition plain_helpers :: Helpers where
  "plain_helpers =
     \<lparr>prepareCallstack = map (\<lambda>(f, l). (''model.py'', l, f)),
      callstackStr = map (\<lambda>(file, l, f). file @ '': '' @ f)\<rparr>"

definition fresh_world :: World where
  "fresh_world = initial_world int 1 1 (idle_backend (Some 0))"


text \<open>The thread after a successful \<^verbatim>\<open>enableProfiler\<close> with CPU activity requested.\<close>

definition enabled_world :: World where
  "enabled_world = snd (enableProfiler kineto_config {ActivityType_CPU} fresh_world)"

text \<open>A session in which one operation, \<open>matmul\<close>, ran from entry to exit.\<close>

definition one_matmul :: "action list" where
  "one_matmul = [Enable kineto_config {ActivityType_CPU}, OpBegin matmul, OpEnd]"

text \<open>The same session, then disabled.\<close>

definition closed_session :: "action list" where
  "closed_session = one_matmul @ [Disable]"

text \<open>The session object on the slot of \<open>enabled_world\<close>.\<close>

definition enabled_session :: KinetoThreadLocalState where
  "enabled_session =
     \<lparr>config = kineto_config, handle = Some 1, legacy_events = [''__start_profile''],
      kineto_events = [],
      cpu_trace = Some \<lparr>span = \<lparr>span_startTime = 0, span_endTime = 0,
                                 span_name = ''PyTorch Profiler''\<rparr>,
                        gpuOpCount = - 1, ops = []\<rparr>\<rparr>"

text \<open>
  A thread on which the legacy profiler is enabled: its state, a plain
  \<^verbatim>\<open>ProfilerThreadLocalState\<close> in CPU mode, is on the slot.
\<close>

definition legacy_state :: ProfilerThreadLocalState where
  "legacy_state = \<lparr>config = legacy_config, handle = None, legacy_events = []\<rparr>"

definition legacy_on_slot :: World where
  "legacy_on_slot = fresh_world\<lparr>debug_info := [Base_object legacy_state]\<rparr>"

section \<open>Properties\<close>

lemmas backend_defs =
  initProfilerIfRegistered_def prepareTrace_def traceActive_def startTrace_def stopTrace_def
  transferCpuTrace_def pushCorrelationId_def popCorrelationId_def

lemmas slot_defs =
  getProfilerTLSState_def ThreadLocalDebugInfo_get_def ThreadLocalDebugInfo_push_def
  ThreadLocalDebugInfo_pop_def update_state_def dynamic_cast_Kineto_def object_config_def
  object_handle_def

lemmas fresh_defs =
  new_KinetoThreadLocalState_def new_CpuTraceBuffer_def new_KinetoEvent_def
  new_ClientTraceActivity_def new_KinetoObserverContext_def initial_world_def idle_backend_def
  corr_id_init_def

lemmas world_defs =
  enableProfiler_def disableProfiler_def prepareProfiler_def op_begin_def op_end_def
  on_entry_def on_exit_def reportClientActivity_def locked_block_def pushProfilingCallbacks_def
  addThreadLocalCallback_def removeCallback_def mark_def consolidate_def events_def
  addTraceEvents_def getTimeUs_def next_correlation_id_def activity_def
  slot_defs backend_defs fresh_defs

lemmas input_defs =
  kineto_config_def legacy_config_def matmul_def plain_helpers_def fresh_world_def
  legacy_state_def

subsection \<open>Correlation ids\<close>

lemma corr_id_after_eq: "corr_id_after n = of_nat (Suc n)"
  by (induction n) (simp_all add: corr_id_init_def next_correlation_id_def)

lemma returned_id_eq: "returned_id n = of_nat (Suc n)"
  by (simp add: returned_id_def next_correlation_id_def corr_id_after_eq)

lemma unat_returned_id:
  assumes "n < 2 ^ 64 - 1"
  shows "unat (returned_id n) = Suc n"
proof -
  have "Suc n < 2 ^ 64" using assms by simp
  then have "Suc n mod 2 ^ LENGTH(64) = Suc n" by simp
  then show ?thesis unfolding returned_id_eq unat_of_nat by simp
qed

text \<open>
  C2, as stated, fails: the counter has 64 bits, so call number \<open>2 ^ 64\<close> (the one
  after \<open>18446744073709551615\<close> earlier calls) returns 0, which is not greater
  than the id \<open>2 ^ 64 - 1\<close> returned just before it.
\<close>

theorem correlation_id_wraps:
  "returned_id 18446744073709551614 = 18446744073709551615 \<and>
   returned_id 18446744073709551615 = 0 \<and>
   \<not> (returned_id 18446744073709551614 < returned_id 18446744073709551615)"
  by (simp add: returned_id_eq del: of_nat_Suc)

text \<open>
  C2, amended: the first id returned is 1, and among the first \<open>2 ^ 64 - 1\<close> calls
  every id is strictly greater than every id returned before it.
\<close>

theorem correlation_ids_increase:
  assumes "i < j" and "j < 2 ^ 64 - 1"
  shows "returned_id 0 = 1 \<and> returned_id i < returned_id j"
proof -
  have "i < 2 ^ 64 - 1" using assms by simp
  then have "unat (returned_id i) < unat (returned_id j)"
    using assms by (simp add: unat_returned_id)
  then show ?thesis by (simp add: word_less_nat_alt returned_id_eq)
qed

theorem correlation_ids_increase_witness:
  "(0::nat) < 1 \<and> (1::nat) < 2 ^ 64 - 1 \<and> returned_id 0 = 1 \<and> returned_id 0 < returned_id 1"
proof -
  have a: "(0::nat) < 1" by simp
  have b: "(1::nat) < 2 ^ 64 - 1" by simp
  from correlation_ids_increase [OF a b] a b show ?thesis by blast
qed

subsection \<open>Rendering of shapes\<close>

declare dims_loop.simps [simp del] shapes_loop.simps [simp del]

lemma sep_by_Cons: "sep_by s (x # xs) = x @ (if xs = [] then [] else s @ sep_by s xs)"
  by (cases xs) simp_all

lemma dims_loop_eq:
  "s_idx \<le> length shape \<Longrightarrow>
   dims_loop shape s_idx oss =
     oss @ (if 0 < s_idx \<and> s_idx < length shape then '', '' else [])
         @ sep_by '', '' (map show_int64 (drop s_idx shape))"
proof (induction shape s_idx oss rule: dims_loop.induct)
  case (1 shape s_idx oss)
  show ?case
  proof (cases "s_idx < length shape")
    case True
    let ?acc = "(if s_idx > 0 then oss @ '', '' else oss) @ show_int64 (shape ! s_idx)"
    have d: "drop s_idx shape = shape ! s_idx # drop (Suc s_idx) shape"
      using True by (simp add: Cons_nth_drop_Suc)
    have ih: "dims_loop shape (s_idx + 1) ?acc =
                ?acc @ (if 0 < s_idx + 1 \<and> s_idx + 1 < length shape then '', '' else [])
                     @ sep_by '', '' (map show_int64 (drop (s_idx + 1) shape))"
      by (rule "1.IH") (use True in simp_all)
    have unfold: "dims_loop shape s_idx oss = dims_loop shape (s_idx + 1) ?acc"
      using True by (subst dims_loop.simps) simp
    show ?thesis
      unfolding unfold ih using True by (simp add: d sep_by_Cons)
  next
    case False
    then show ?thesis using 1 by (subst dims_loop.simps) simp
  qed
qed

lemma dims_loop_0: "dims_loop shape 0 oss = oss @ sep_by '', '' (map show_int64 shape)"
  using dims_loop_eq [of 0 shape oss] by simp

lemma shapes_loop_eq:
  "t_idx \<le> length shps \<Longrightarrow>
   shapes_loop shps t_idx oss =
     oss @ (if 0 < t_idx \<and> t_idx < length shps then '', '' else [])
         @ sep_by '', '' (map (\<lambda>shape. bracketed (map show_int64 shape)) (drop t_idx shps))"
proof (induction shps t_idx oss rule: shapes_loop.induct)
  case (1 shps t_idx oss)
  show ?case
  proof (cases "t_idx < length shps")
    case True
    let ?acc = "dims_loop (shps ! t_idx) 0
                  ((if t_idx > 0 then oss @ '', '' else oss) @ ''['') @ '']''"
    have d: "drop t_idx shps = shps ! t_idx # drop (Suc t_idx) shps"
      using True by (simp add: Cons_nth_drop_Suc)
    have ih: "shapes_loop shps (t_idx + 1) ?acc =
                ?acc @ (if 0 < t_idx + 1 \<and> t_idx + 1 < length shps then '', '' else [])
                     @ sep_by '', '' (map (\<lambda>shape. bracketed (map show_int64 shape))
                                        (drop (t_idx + 1) shps))"
      by (rule "1.IH") (use True in simp_all)
    have unfold: "shapes_loop shps t_idx oss = shapes_loop shps (t_idx + 1) ?acc"
      using True by (subst shapes_loop.simps) simp
    show ?thesis
      unfolding unfold ih using True by (simp add: d sep_by_Cons dims_loop_0 bracketed_def)
  next
    case False
    then show ?thesis using 1 by (subst shapes_loop.simps) simp
  qed
qed

lemma shapesToStr_refines: "shapesToStr shps = shapes_rendering shps"
  using shapes_loop_eq [of 0 shps "''[''"]
  by (simp add: shapesToStr_def shapes_rendering_def bracketed_def)

text \<open>
  C6: the two loops of \<^verbatim>\<open>shapesToStr\<close> produce, for every list of shapes, the
  bracketed list of bracketed lists with comma-and-space separators, and for the shapes
  \<open>[[2, 3], [3, 4]]\<close> exactly the text \<^verbatim>\<open>[[2, 3], [3, 4]]\<close>.
\<close>

theorem shapesToStr_renders:
  "shapesToStr shps = shapes_rendering shps \<and>
   shapesToStr [[2, 3], [3, 4]] = ''[[2, 3], [3, 4]]''"
  by (simp add: shapesToStr_refines shapes_rendering_def bracketed_def show_int64_def)


subsection \<open>Prepare and enable\<close>

text \<open>
  C5: in Kineto mode \<^verbatim>\<open>prepareProfiler\<close> hands the backend exactly this set: the
  external-correlation and CUDA-runtime categories when CPU activity is requested,
  together with the memory-copy, memory-set, concurrent-kernel and CUDA-runtime
  categories when CUDA activity is requested, and nothing else.
\<close>

theorem prepareProfiler_activities:
  assumes "state cfg = KINETO"
  shows "\<exists>w'. prepareProfiler cfg activities w = (Inr (), w') \<and>
           prepared_activities (kineto w') =
             Some ((if ActivityType_CPU \<in> activities
                    then {EXTERNAL_CORRELATION, CUDA_RUNTIME} else {}) \<union>
                   (if ActivityType_CUDA \<in> activities
                    then {GPU_MEMCPY, GPU_MEMSET, CONCURRENT_KERNEL, CUDA_RUNTIME} else {}))"
  using assms
  by (auto simp: prepareProfiler_def k_activities_def prepareTrace_def
        initProfilerIfRegistered_def)

theorem prepareProfiler_activities_witness:
  "state kineto_config = KINETO \<and>
   (\<exists>w'. prepareProfiler kineto_config {ActivityType_CPU} fresh_world = (Inr (), w') \<and>
         prepared_activities (kineto w') = Some {EXTERNAL_CORRELATION, CUDA_RUNTIME})"
proof -
  have k: "state kineto_config = KINETO" by (simp add: kineto_config_def)
  from prepareProfiler_activities [OF k, of "{ActivityType_CPU}" fresh_world] k
  show ?thesis by simp
qed

lemma enabled_world_slot: "debug_info enabled_world = [Kineto_object enabled_session]"
  by (simp add: enabled_world_def enabled_session_def world_defs input_defs Let_def)

lemma enabled_world_state: "getProfilerTLSState enabled_world = Some enabled_session"
  by (simp add: slot_defs enabled_world_slot)




subsection \<open>The entry callback\<close>

text \<open>
  C7: when the entry callback finds a session in Kineto mode that is configured to
  capture call stacks, the context it returns carries the formatted call stack of the
  primary extractor, or of the alternate extractor when the primary one yields nothing,
  for every operation whose scope is not the backward-function scope, and no call stack
  for an operation in the backward-function scope.
\<close>

theorem on_entry_stack:
  assumes "getProfilerTLSState w = Some st"
    and "state (config st) = KINETO"
    and "with_stack (config st)"
  shows "stack (fst (on_entry h fn w)) =
           (if scope fn \<noteq> BACKWARD_FUNCTION
            then Some (callstackStr h
                   (if prepareCallstack h (currentCallstack fn) = []
                    then prepareCallstack h (pythonCallstack fn)
                    else prepareCallstack h (currentCallstack fn)))
            else None)"
  using assms
  by (simp add: on_entry_def Let_def next_correlation_id_def getTimeUs_def
        new_KinetoObserverContext_def split: prod.splits)

theorem on_entry_stack_witness:
  "\<exists>st. getProfilerTLSState enabled_world = Some st \<and> state (config st) = KINETO \<and>
     with_stack (config st) \<and>
     stack (fst (on_entry plain_helpers matmul enabled_world)) = Some [''model.py: forward''] \<and>
     stack (fst (on_entry plain_helpers (matmul\<lparr>scope := BACKWARD_FUNCTION\<rparr>) enabled_world))
       = None"
proof -
  have a: "getProfilerTLSState enabled_world = Some enabled_session"
    by (rule enabled_world_state)
  have b: "state (config enabled_session) = KINETO"
    by (simp add: enabled_session_def kineto_config_def)
  have c: "with_stack (config enabled_session)"
    by (simp add: enabled_session_def kineto_config_def)
  from on_entry_stack [OF a b c, of plain_helpers matmul]
       on_entry_stack [OF a b c, of plain_helpers "matmul\<lparr>scope := BACKWARD_FUNCTION\<rparr>"] a b c
  show ?thesis by (simp add: matmul_def plain_helpers_def)
qed

subsection \<open>The result of a session\<close>

text \<open>
  C1 is not what the code does: \<^verbatim>\<open>events()\<close> is a stub that returns an empty
  vector.  After a session in which \<open>matmul\<close> ran, the session's buffer holds the
  event recorded for it, and the result of \<^verbatim>\<open>disableProfiler\<close> has the legacy
  events and the trace handle but no event.
\<close>

theorem disableProfiler_result_has_no_events:
  "map (\<lambda>obj. map_option (\<lambda>st. map e_name (kineto_events st)) (dynamic_cast_Kineto obj))
     (debug_info (run plain_helpers one_matmul fresh_world))
     = [Some [''matmul'']] \<and>
   fst (disableProfiler (run plain_helpers one_matmul fresh_world))
     = Inr \<lparr>result_events = [],
            result_legacy_events = [[''__start_profile'', ''__stop_profile'']],
            result_trace = 0\<rparr>"
  by (simp add: one_matmul_def run_def world_defs input_defs Let_def)

text \<open>
  C8 is not what the code does, for the same reason: in that session one entry
  callback found the session in Kineto mode, and the result counts no event.
\<close>

theorem disableProfiler_event_count_is_zero:
  "observed_entries plain_helpers fresh_world one_matmul = 1 \<and>
   map_sum id event_count (fst (disableProfiler (run plain_helpers one_matmul fresh_world)))
     = Inr 0"
  by (simp add: one_matmul_def run_def observes_session_def event_count_def world_defs
        input_defs Let_def)


subsection \<open>The slot invariant\<close>

lemma slot_inv_prepare: "slot_inv w \<Longrightarrow> slot_inv (snd (prepareProfiler cfg acts w))"
  by (auto simp: slot_inv_def kineto_session_def prepareProfiler_def
      split: list.splits DebugInfo.splits)

lemma slot_inv_enable: "slot_inv w \<Longrightarrow> slot_inv (snd (enableProfiler cfg acts w))"
  by (auto simp: slot_inv_def kineto_session_def session_balanced_def registered_handles_def
        world_defs Let_def
      split: list.splits option.splits DebugInfo.splits)

lemma slot_inv_disable: "slot_inv w \<Longrightarrow> slot_inv (snd (disableProfiler w))"
  by (auto simp: slot_inv_def kineto_session_def session_balanced_def registered_handles_def
        world_defs Let_def
      split: list.splits option.splits DebugInfo.splits)

lemma slot_inv_begin: "slot_inv w \<Longrightarrow> slot_inv (op_begin h fn w)"
  by (auto simp: slot_inv_def kineto_session_def session_balanced_def registered_handles_def
        world_defs Let_def
      split: list.splits option.splits DebugInfo.splits)

lemma slot_inv_end: "slot_inv w \<Longrightarrow> slot_inv (op_end w)"
  by (auto simp: slot_inv_def kineto_session_def session_balanced_def registered_handles_def
        world_defs Let_def
      split: list.splits option.splits prod.splits DebugInfo.splits)

lemma slot_inv_step: "slot_inv w \<Longrightarrow> slot_inv (step h w a)"
  by (cases a)
     (simp_all add: slot_inv_prepare slot_inv_enable slot_inv_disable slot_inv_begin
        slot_inv_end)

lemma slot_inv_run: "slot_inv w \<Longrightarrow> slot_inv (run h acts w)"
  unfolding run_def by (induction acts arbitrary: w) (simp_all add: slot_inv_step)

lemma slot_inv_initial: "slot_inv (initial_world clk tid ptid k)"
  by (simp add: slot_inv_def initial_world_def)

subsection \<open>Disable\<close>

lemma disable_empty:
  "debug_info w = [] \<Longrightarrow> disableProfiler w = (Inl Cannot_disable_when_not_running, w)"
  by (simp add: disableProfiler_def ThreadLocalDebugInfo_pop_def)

lemma disable_pops: "debug_info (snd (disableProfiler w)) = tl (debug_info w)"
  by (auto simp: world_defs Let_def split: list.splits option.splits prod.splits DebugInfo.splits)

lemma no_enable_no_session:
  "debug_info w = [] \<Longrightarrow> \<forall>cfg activities. Enable cfg activities \<notin> set acts \<Longrightarrow>
   debug_info (run h acts w) = []"
  unfolding run_def
proof (induction acts arbitrary: w)
  case Nil
  then show ?case by simp
next
  case (Cons a acts)
  have "debug_info (step h w a) = []"
    using Cons.prems
    by (cases a) (auto simp: world_defs Let_def split: list.splits option.splits prod.splits DebugInfo.splits)
  then show ?case using Cons by simp
qed

text \<open>
  C4: \<^verbatim>\<open>disableProfiler\<close> fails when no profiler state is on the thread's slot,
  and when the state on the slot, whatever its dynamic type, is not in Kineto mode.  In
  particular it fails after any run of the thread from process start in which nothing
  was enabled, and, after any run at all, a disable that directly follows a disable
  fails.
\<close>

theorem disableProfiler_checks:
  "(ThreadLocalDebugInfo_get w = None
      \<longrightarrow> disableProfiler w = (Inl Cannot_disable_when_not_running, w)) \<and>
   (ThreadLocalDebugInfo_get w = Some obj \<and> state (object_config obj) \<noteq> KINETO
      \<longrightarrow> fst (disableProfiler w) = Inl Cannot_disable_when_not_running) \<and>
   ((\<forall>cfg activities. Enable cfg activities \<notin> set acts)
      \<longrightarrow> fst (disableProfiler (run h acts (initial_world clk tid ptid k)))
            = Inl Cannot_disable_when_not_running) \<and>
   fst (disableProfiler (snd (disableProfiler (run h acts (initial_world clk tid ptid k)))))
     = Inl Cannot_disable_when_not_running"
proof (intro conjI impI)
  assume "ThreadLocalDebugInfo_get w = None"
  then have "debug_info w = []" by (simp add: slot_defs split: list.splits)
  then show "disableProfiler w = (Inl Cannot_disable_when_not_running, w)"
    by (rule disable_empty)
next
  assume "ThreadLocalDebugInfo_get w = Some obj \<and> state (object_config obj) \<noteq> KINETO"
  then show "fst (disableProfiler w) = Inl Cannot_disable_when_not_running"
    by (auto simp: disableProfiler_def slot_defs split: list.splits)
next
  assume "\<forall>cfg activities. Enable cfg activities \<notin> set acts"
  then have "debug_info (run h acts (initial_world clk tid ptid k)) = []"
    by (intro no_enable_no_session) (simp_all add: initial_world_def)
  then show "fst (disableProfiler (run h acts (initial_world clk tid ptid k)))
               = Inl Cannot_disable_when_not_running"
    by (simp add: disable_empty)
next
  let ?w = "run h acts (initial_world clk tid ptid k)"
  have "slot_inv ?w" by (rule slot_inv_run [OF slot_inv_initial])
  then have "tl (debug_info ?w) = []" by (auto simp: slot_inv_def split: list.splits)
  then have "debug_info (snd (disableProfiler ?w)) = []" by (simp add: disable_pops)
  then show "fst (disableProfiler (snd (disableProfiler ?w)))
               = Inl Cannot_disable_when_not_running"
    by (simp add: disable_empty)
qed

theorem disableProfiler_checks_witness:
  "disableProfiler fresh_world = (Inl Cannot_disable_when_not_running, fresh_world) \<and>
   fst (disableProfiler legacy_on_slot) = Inl Cannot_disable_when_not_running \<and>
   fst (disableProfiler (run plain_helpers [OpBegin matmul, OpEnd] fresh_world))
     = Inl Cannot_disable_when_not_running \<and>
   (\<exists>r. fst (disableProfiler (run plain_helpers one_matmul fresh_world)) = Inr r) \<and>
   fst (disableProfiler (snd (disableProfiler (run plain_helpers one_matmul fresh_world))))
     = Inl Cannot_disable_when_not_running"
proof -
  have a: "ThreadLocalDebugInfo_get fresh_world = None"
    by (simp add: fresh_world_def world_defs)
  have b: "ThreadLocalDebugInfo_get legacy_on_slot = Some (Base_object legacy_state) \<and>
           state (object_config (Base_object legacy_state)) \<noteq> KINETO"
    by (simp add: legacy_on_slot_def slot_defs legacy_state_def legacy_config_def)
  have c: "\<forall>cfg activities. Enable cfg activities \<notin> set [OpBegin matmul, OpEnd]" by simp
  have d: "\<exists>r. fst (disableProfiler (run plain_helpers one_matmul fresh_world)) = Inr r"
    by (simp add: one_matmul_def run_def world_defs input_defs Let_def)
  from disableProfiler_checks
         [of fresh_world "Kineto_object enabled_session" "[]" plain_helpers int 1 1
             "idle_backend (Some 0)"]
       disableProfiler_checks
         [of legacy_on_slot "Base_object legacy_state" "[OpBegin matmul, OpEnd]"
             plain_helpers int 1 1 "idle_backend (Some 0)"]
       disableProfiler_checks
         [of fresh_world "Kineto_object enabled_session" one_matmul plain_helpers int 1 1
             "idle_backend (Some 0)"]
       a b c d
  show ?thesis by (simp add: fresh_world_def)
qed

subsection \<open>The two buffers of a session\<close>

lemma locked_block_appends:
  "cpu_trace st = Some buf \<Longrightarrow>
     \<exists>ev. locked_block op ctx st =
       (Inr (), st\<lparr>kineto_events := kineto_events st @ [ev],
                   cpu_trace := Some (buf\<lparr>ops := ops buf @ [op]\<rparr>)\<rparr>)"
  by (simp add: locked_block_def Let_def) (rule exI, rule refl)

lemma step_extends:
  "debug_info w = Kineto_object st # rest \<Longrightarrow> a \<noteq> Disable \<Longrightarrow>
     \<exists>st'. debug_info (step h w a) = Kineto_object st' # rest \<and> extends st st'"
  by (cases a)
     (auto simp: extends_def world_defs Let_def split: list.splits option.splits prod.splits DebugInfo.splits)

text \<open>
  C10: whatever a thread has done since process start, the event buffer of the session
  on its slot is as long as the list of operations of the session's CPU trace.  The
  block of \<^verbatim>\<open>reportClientActivity\<close> that runs under the state mutex appends exactly
  one event and exactly one operation (here it is one step, with nothing interleaved),
  and no action other than the disable that ends the session removes an entry of
  either buffer.
\<close>

theorem buffers_stay_balanced:
  "list_all (kineto_session session_balanced)
     (debug_info (run h acts (initial_world clk tid ptid k))) \<and>
   (cpu_trace st = Some buf \<longrightarrow>
      (\<exists>ev. locked_block op ctx st =
         (Inr (), st\<lparr>kineto_events := kineto_events st @ [ev],
                     cpu_trace := Some (buf\<lparr>ops := ops buf @ [op]\<rparr>)\<rparr>))) \<and>
   (debug_info w = Kineto_object st # rest \<and> a \<noteq> Disable \<longrightarrow>
      (\<exists>st'. debug_info (step h w a) = Kineto_object st' # rest \<and> extends st st'))"
proof -
  have "slot_inv (run h acts (initial_world clk tid ptid k))"
    by (rule slot_inv_run [OF slot_inv_initial])
  then have "list_all (kineto_session session_balanced)
               (debug_info (run h acts (initial_world clk tid ptid k)))"
    by (auto simp: slot_inv_def kineto_session_def split: list.splits DebugInfo.splits)
  then show ?thesis using locked_block_appends step_extends by blast
qed


theorem buffers_stay_balanced_witness:
  "map (\<lambda>obj. map_option
                (\<lambda>st. (length (kineto_events st),
                       map_option (\<lambda>b. length (ops b)) (cpu_trace st)))
                (dynamic_cast_Kineto obj))
     (debug_info (run plain_helpers one_matmul fresh_world)) = [Some (1, Some 1)] \<and>
   list_all (kineto_session session_balanced)
     (debug_info (run plain_helpers one_matmul fresh_world)) \<and>
   (\<exists>buf. cpu_trace enabled_session = Some buf \<and>
      (\<exists>ev. locked_block new_ClientTraceActivity new_KinetoObserverContext enabled_session =
         (Inr (), enabled_session
                    \<lparr>kineto_events := kineto_events enabled_session @ [ev],
                     cpu_trace := Some (buf\<lparr>ops := ops buf @ [new_ClientTraceActivity]\<rparr>)\<rparr>))) \<and>
   debug_info enabled_world = Kineto_object enabled_session # [] \<and>
   OpBegin matmul \<noteq> Disable \<and>
   (\<exists>st'. debug_info (step plain_helpers enabled_world (OpBegin matmul))
            = Kineto_object st' # [] \<and>
      extends enabled_session st')"
proof -
  have e: "map (\<lambda>obj. map_option
                       (\<lambda>st. (length (kineto_events st),
                              map_option (\<lambda>b. length (ops b)) (cpu_trace st)))
                       (dynamic_cast_Kineto obj))
             (debug_info (run plain_helpers one_matmul fresh_world)) = [Some (1, Some 1)]"
    by (simp add: one_matmul_def run_def world_defs input_defs Let_def)
  obtain buf where b: "cpu_trace enabled_session = Some buf"
    by (simp add: enabled_session_def)
  have s: "debug_info enabled_world = Kineto_object enabled_session # [] \<and>
           OpBegin matmul \<noteq> Disable"
    by (simp add: enabled_world_slot)
  from buffers_stay_balanced
         [where h = plain_helpers and acts = one_matmul and clk = int and tid = 1 and ptid = 1
            and k = "idle_backend (Some 0)" and st = enabled_session and buf = buf
            and op = new_ClientTraceActivity and ctx = new_KinetoObserverContext
            and w = enabled_world and rest = "[]" and a = "OpBegin matmul"]
       e b s
  show ?thesis by (simp add: fresh_world_def)
qed

subsection \<open>Timestamps\<close>

lemma monotonic_Suc: "monotonic clk \<Longrightarrow> clk i \<le> clk (Suc i)"
  by (simp add: monotonic_def)

lemma le_clock_Suc: "monotonic clk \<Longrightarrow> x \<le> clk i \<Longrightarrow> x \<le> clk (Suc i)"
  using monotonic_Suc [of clk i] by simp

lemma session_timed_mono: "session_timed t st \<Longrightarrow> t \<le> t' \<Longrightarrow> session_timed t' st"
  by (auto simp: session_timed_def split: option.splits)

lemma context_timed_mono: "context_timed t p \<Longrightarrow> t \<le> t' \<Longrightarrow> context_timed t' p"
  by (auto simp: context_timed_def split: option.splits)

lemma session_timed_Suc:
  "monotonic clk \<Longrightarrow> session_timed (clk i) st \<Longrightarrow> session_timed (clk (Suc i)) st"
  by (auto intro: session_timed_mono monotonic_Suc)

lemma sessions_timed_Suc:
  "monotonic clk \<Longrightarrow> list_all (kineto_session (session_timed (clk i))) objs \<Longrightarrow>
   list_all (kineto_session (session_timed (clk (Suc i)))) objs"
  by (induction objs)
     (auto simp: kineto_session_def split: DebugInfo.splits
        intro: session_timed_mono monotonic_Suc)

lemma contexts_timed_Suc:
  "monotonic clk \<Longrightarrow> list_all (context_timed (clk i)) cs \<Longrightarrow>
   list_all (context_timed (clk (Suc i))) cs"
  by (induction cs) (auto intro: context_timed_mono monotonic_Suc)

lemma time_inv_prepare: "time_inv w \<Longrightarrow> time_inv (snd (prepareProfiler cfg acts w))"
  by (auto simp: time_inv_def prepareProfiler_def backend_defs)

lemma time_inv_enable: "time_inv w \<Longrightarrow> time_inv (snd (enableProfiler cfg acts w))"
  by (auto simp: time_inv_def kineto_session_def world_defs Let_def session_timed_def
        session_ordered_def
        contexts_timed_Suc monotonic_Suc
      split: list.splits option.splits DebugInfo.splits)

lemma time_inv_disable: "time_inv w \<Longrightarrow> time_inv (snd (disableProfiler w))"
  by (auto simp: time_inv_def kineto_session_def world_defs Let_def session_timed_def
        session_ordered_def
        transferred_ordered_def span_ordered_def contexts_timed_Suc sessions_timed_Suc
        monotonic_Suc
      split: list.splits option.splits DebugInfo.splits)

text \<open>
  An operation is entered with the entry callback only while a callback is registered,
  and then, by the slot invariant, a session in Kineto mode is on the slot: the context
  carries a reading of the clock, never the zero of the placeholder.
\<close>

lemma time_inv_begin: "slot_inv w \<Longrightarrow> time_inv w \<Longrightarrow> time_inv (op_begin h fn w)"
  by (auto simp: time_inv_def slot_inv_def kineto_session_def world_defs Let_def
        context_timed_def contexts_timed_Suc sessions_timed_Suc monotonic_Suc
      split: list.splits option.splits DebugInfo.splits intro: session_timed_Suc)

lemma time_inv_end: "time_inv w \<Longrightarrow> time_inv (op_end w)"
  by (auto simp: time_inv_def kineto_session_def world_defs Let_def session_timed_def
        session_ordered_def
        context_timed_def activity_ordered_def contexts_timed_Suc sessions_timed_Suc
        monotonic_Suc
      split: list.splits option.splits prod.splits DebugInfo.splits intro: le_clock_Suc)

lemma time_inv_step: "slot_inv w \<Longrightarrow> time_inv w \<Longrightarrow> time_inv (step h w a)"
  by (cases a)
     (simp_all add: time_inv_prepare time_inv_enable time_inv_disable time_inv_begin
        time_inv_end)

lemma inv_run:
  "slot_inv w \<Longrightarrow> time_inv w \<Longrightarrow> slot_inv (run h acts w) \<and> time_inv (run h acts w)"
  unfolding run_def
  by (induction acts arbitrary: w) (simp_all add: slot_inv_step time_inv_step)

lemma time_inv_initial:
  "monotonic clk \<Longrightarrow> time_inv (initial_world clk tid ptid (idle_backend tr))"
  by (simp add: time_inv_def initial_world_def idle_backend_def)

text \<open>
  C9: when the clock is monotonic then, whatever a thread has done since process
  start, every activity recorded in the session on its slot ends no earlier than it
  starts (the end is read in the exit callback, the start in the entry callback) and
  every event has a duration that is not negative; and every CPU trace handed to the
  backend by a disable has such activities and a span whose end, set at disable, is no
  earlier than its start, set at enable.
\<close>

theorem timestamps_ordered:
  assumes "monotonic clk"
  shows "list_all (kineto_session session_ordered)
           (debug_info (run h acts (initial_world clk tid ptid (idle_backend tr)))) \<and>
         list_all transferred_ordered
           (cpu_traces (kineto (run h acts (initial_world clk tid ptid (idle_backend tr)))))"
proof -
  let ?w = "run h acts (initial_world clk tid ptid (idle_backend tr))"
  have "time_inv ?w"
    using inv_run [OF slot_inv_initial time_inv_initial [OF assms]] by blast
  then have a: "list_all (kineto_session (session_timed (clock ?w (ticks ?w)))) (debug_info ?w)"
    and b: "list_all transferred_ordered (cpu_traces (kineto ?w))"
    by (simp_all add: time_inv_def)
  from a have "list_all (kineto_session session_ordered) (debug_info ?w)"
    by (auto simp: session_timed_def kineto_session_def list_all_iff split: DebugInfo.splits)
  with b show ?thesis by simp
qed

theorem timestamps_ordered_witness:
  "monotonic int \<and>
   map (\<lambda>b. (span_startTime (span b), span_endTime (span b),
             map (\<lambda>op. (startTime op, endTime op)) (ops b)))
     (cpu_traces (kineto (run plain_helpers closed_session fresh_world))) = [(0, 3, [(1, 2)])] \<and>
   list_all (kineto_session session_ordered)
     (debug_info (run plain_helpers closed_session fresh_world)) \<and>
   list_all transferred_ordered
     (cpu_traces (kineto (run plain_helpers closed_session fresh_world)))"
proof -
  have m: "monotonic int" by (simp add: monotonic_def)
  have e: "map (\<lambda>b. (span_startTime (span b), span_endTime (span b),
                     map (\<lambda>op. (startTime op, endTime op)) (ops b)))
             (cpu_traces (kineto (run plain_helpers closed_session fresh_world)))
           = [(0, 3, [(1, 2)])]"
    by (simp add: closed_session_def one_matmul_def run_def world_defs input_defs Let_def)
  from timestamps_ordered [OF m, of plain_helpers closed_session 1 1 "Some 0"] m e
  show ?thesis by (simp add: fresh_world_def)
qed

end
